theory Spec2Isabelle
  imports Main "HOL-Library.AList"
begin

section \<open>path-router-express: the request listener of createRouter\<close>

text \<open>
  The source file \<^verbatim>\<open>src/index.ts\<close> holds two revisions of \<^verbatim>\<open>createRouter\<close>, one
  after the other. They differ in three places only: the second revision guards
  \<^verbatim>\<open>route.resolves\<close> before iterating over it, checks the result's headers before it
  sets the HTML content type, and passes the request to \<^verbatim>\<open>onError\<close> as a second
  argument. The model takes the revision as a parameter and is otherwise one text.
\<close>

datatype revision = First | Second

subsection \<open>JavaScript values\<close>

text \<open>
  The values the listener inspects at run time. Numbers are the integers. An object
  (a plain object, an array, a Buffer, a stream, an Error) is the list of the properties
  a read finds on it, the enumerable own ones in the order \<^verbatim>\<open>Object.keys\<close> reports
  them; a stream is an object whose \<^verbatim>\<open>pipe\<close> and \<^verbatim>\<open>on\<close> are functions. A function value
  is opaque: its own \<^verbatim>\<open>name\<close> and \<^verbatim>\<open>length\<close> are not modelled, and every property read
  from it gives \<^verbatim>\<open>undefined\<close>. None of the property names the listener reads is supplied
  by the prototype of a primitive, so reading one from a primitive gives \<^verbatim>\<open>undefined\<close>.
\<close>

datatype jsval =
    JUndefined
  | JNull
  | JBool bool
  | JNum int
  | JStr string
  | JFun nat
  | JObj "(string \<times> jsval) list"

datatype jstype = TUndefined | TObject | TBoolean | TNumber | TString | TFunction

fun typeof :: "jsval \<Rightarrow> jstype" where
  "typeof JUndefined = TUndefined"
| "typeof JNull = TObject"
| "typeof (JBool b) = TBoolean"
| "typeof (JNum n) = TNumber"
| "typeof (JStr s) = TString"
| "typeof (JFun f) = TFunction"
| "typeof (JObj ps) = TObject"

fun truthy :: "jsval \<Rightarrow> bool" where
  "truthy JUndefined = False"
| "truthy JNull = False"
| "truthy (JBool b) = b"
| "truthy (JNum n) = (n \<noteq> 0)"
| "truthy (JStr s) = (s \<noteq> [])"
| "truthy (JFun f) = True"
| "truthy (JObj ps) = True"

fun nullish :: "jsval \<Rightarrow> bool" where
  "nullish JUndefined = True"
| "nullish JNull = True"
| "nullish v = False"

text \<open>
  \<open>get_prop v k\<close> is the read \<^verbatim>\<open>v[k]\<close> for a value that is neither \<^verbatim>\<open>null\<close> nor
  \<^verbatim>\<open>undefined\<close>; every caller tests \<open>nullish\<close> first where the source would raise.
\<close>

fun get_prop :: "jsval \<Rightarrow> string \<Rightarrow> jsval" where
  "get_prop (JObj ps) k = (case map_of ps k of Some v \<Rightarrow> v | None \<Rightarrow> JUndefined)"
| "get_prop v k = JUndefined"

fun Object_keys :: "(string \<times> jsval) list \<Rightarrow> string list" where
  "Object_keys ps = map fst (AList.clearjunk ps)"

text \<open>The assignment \<^verbatim>\<open>o[k] = v\<close> on an object.\<close>

fun assign :: "jsval \<Rightarrow> string \<Rightarrow> jsval \<Rightarrow> jsval" where
  "assign (JObj ps) k v = JObj (AList.update k v ps)"
| "assign o' k v = o'"

text \<open>
  The engine's \<^verbatim>\<open>TypeError\<close>, as the Error object a handler receives. The message
  text is the engine's; the model gives the expression that failed.
\<close>

definition TypeError :: "string \<Rightarrow> jsval" where
  "TypeError msg = JObj [(''name'', JStr ''TypeError''), (''message'', JStr msg)]"

text \<open>
  \<^verbatim>\<open>Number.prototype.toString\<close> on an integer: its decimal digits. This is the text
  JavaScript gives for integers below \<^verbatim>\<open>1e21\<close> that a double holds exactly; beyond
  them the engine rounds or switches to exponent notation, which the model does not.
\<close>

definition digit :: "nat \<Rightarrow> char" where
  "digit d = ''0123456789'' ! d"

function toString_nat :: "nat \<Rightarrow> string" where
  "toString_nat n =
     (if n < 10 then [digit n]
      else toString_nat (n div 10) @ [digit (n mod 10)])"
  by pat_completeness auto
termination
  by (relation "measure id") auto

declare toString_nat.simps [simp del]

definition toString :: "int \<Rightarrow> string" where
  "toString n = (if n < 0 then CHR ''-'' # toString_nat (nat (- n)) else toString_nat (nat n))"

subsection \<open>The collaborators and the calls made on them\<close>

text \<open>
  The listener only ever writes to its collaborators: the response sink, the log, the
  error mapper and the dispatch target. A run is the list of the calls it made, in
  order. \<open>OnEnd s\<close> is \<^verbatim>\<open>s.on("end", () => response.end())\<close>. A call on the sink,
  the log or the mapper is taken to return normally; what a resolver or a dispatch
  target does is its \<open>completion\<close>, below.
\<close>

datatype call =
    Cookie string jsval jsval
  | Header string jsval
  | Redirect jsval
  | Status jsval
  | ContentType string
  | End jsval
  | Json jsval
  | Pipe jsval
  | OnEnd jsval
  | LogError string jsval
  | OnError "jsval list"
  | Action string "jsval list"
  | Callback "jsval list"

text \<open>A block of statements: the calls it made and the exception that cut it short, if any.\<close>

type_synonym run = "call list \<times> jsval option"

definition ok :: "call list \<Rightarrow> run" where
  "ok cs = (cs, None)"

definition throw :: "jsval \<Rightarrow> run" where
  "throw e = ([], Some e)"

definition andThen :: "run \<Rightarrow> run \<Rightarrow> run" where
  "andThen a b = (case snd a of None \<Rightarrow> (fst a @ fst b, snd b) | Some e \<Rightarrow> a)"

text \<open>
  What an application function hands back: a plain value or a promise, or it throws.
  A promise carries the instant at which it settles, or never settles.
\<close>

datatype awaited = Value jsval | Fulfils nat jsval | Rejects nat jsval | Hangs

datatype completion = Returns awaited | Throws jsval

datatype 'a settlement = Fulfilled 'a | Rejected jsval | Pending

type_synonym resolver = "jsval \<Rightarrow> completion"

type_synonym target = "jsval list \<Rightarrow> completion"

datatype Method = get | post | patch | put | delete

record Route =
  http_method :: Method
  path :: string
  resolves :: "resolver list option"
  action :: "string option"
  callback :: "target option"

record Router =
  debug :: bool
  controller :: "(string \<rightharpoonup> target) option"
  onError :: "(jsval list \<Rightarrow> jsval) option"
  routes :: "Route list"

subsection \<open>The response materializer (the second \<^verbatim>\<open>then\<close> callback)\<close>

text \<open>
  \<^verbatim>\<open>Object.keys(result.cookies).forEach(...)\<close>: one \<^verbatim>\<open>response.cookie\<close> per key. Reading
  \<^verbatim>\<open>cookie.value\<close> raises when the entry is \<^verbatim>\<open>null\<close> or \<^verbatim>\<open>undefined\<close>.
\<close>

fun forEach_cookie :: "jsval \<Rightarrow> string list \<Rightarrow> run" where
  "forEach_cookie cookies [] = ok []"
| "forEach_cookie cookies (key # keys) =
     (let cookie = get_prop cookies key in
      if nullish cookie then throw (TypeError ''cookie.value'')
      else andThen (ok [Cookie key (get_prop cookie ''value'') (get_prop cookie ''options'')])
             (forEach_cookie cookies keys))"

definition set_cookies :: "jsval \<Rightarrow> run" where
  "set_cookies result =
     (if typeof (get_prop result ''cookies'') = TObject then
        (case get_prop result ''cookies'' of
           JObj ps \<Rightarrow> forEach_cookie (JObj ps) (Object_keys ps)
         | _ \<Rightarrow> throw (TypeError ''Object.keys(result.cookies)''))
      else ok [])"

definition set_headers :: "jsval \<Rightarrow> run" where
  "set_headers result =
     (if typeof (get_prop result ''headers'') = TObject then
        (case get_prop result ''headers'' of
           JObj ps \<Rightarrow> ok (map (\<lambda>key. Header key (get_prop (JObj ps) key)) (Object_keys ps))
         | _ \<Rightarrow> throw (TypeError ''Object.keys(result.headers)''))
      else ok [])"

text \<open>
  The chain of \<^verbatim>\<open>if\<close>/\<^verbatim>\<open>else if\<close> that writes the body. The first revision sets the
  HTML content type whenever the \<open>content\<close> branch runs; the second one tests
  \<^verbatim>\<open>!result.headers || !result.headers["Content-Type"] && !result.headers["content-type"]\<close>
  first. A stream whose \<^verbatim>\<open>pipe\<close> or \<^verbatim>\<open>on\<close> is not a function (a \<^verbatim>\<open>null\<close> stream among
  them) raises.
\<close>

definition write_body :: "revision \<Rightarrow> bool \<Rightarrow> jsval \<Rightarrow> run" where
  "write_body rv dbg result =
     (if truthy (get_prop result ''binary'') then ok [End (get_prop result ''binary'')]
      else if typeof (get_prop result ''json'') = TObject then
        ok [Json (if truthy (get_prop result ''json'') \<and> dbg \<and> truthy (get_prop result ''debug'')
                  then assign (get_prop result ''json'') ''debug'' (get_prop result ''debug'')
                  else get_prop result ''json'')]
      else if typeof (get_prop result ''text'') = TString then ok [End (get_prop result ''text'')]
      else if typeof (get_prop result ''content'') = TString then
        ok ((if rv = First \<or> \<not> truthy (get_prop result ''headers'') \<or>
                \<not> truthy (get_prop (get_prop result ''headers'') ''Content-Type'') \<and>
                \<not> truthy (get_prop (get_prop result ''headers'') ''content-type'')
             then [ContentType ''text/html; charset=UTF-8''] else [])
            @ [End (get_prop result ''content'')])
      else if typeof (get_prop result ''stream'') = TObject then
        (if typeof (get_prop (get_prop result ''stream'') ''pipe'') = TFunction then
           andThen (ok [Pipe (get_prop result ''stream'')])
             (if typeof (get_prop (get_prop result ''stream'') ''on'') = TFunction
              then ok [OnEnd (get_prop result ''stream'')]
              else throw (TypeError ''result.stream.on''))
         else throw (TypeError ''result.stream.pipe''))
      else ok [Status (JNum 400),
               Json (JObj [(''error'', JObj [(''name'', JStr ''badRequest''),
                                             (''message'', JStr ''Bad Request'')])])])"

text \<open>
  The whole callback. \<open>set_status\<close> is the status, the \<^verbatim>\<open>X-Total-Count\<close> header of a
  numeric \<open>count\<close> and, in debug mode, the \<^verbatim>\<open>X-Request-Duration\<close> header; \<open>time\<close> is
  the clock read when the listener started, \<open>now\<close> the clock read for that header. Reading \<^verbatim>\<open>result.cookies\<close> raises when the action
  handed back \<^verbatim>\<open>null\<close> or \<^verbatim>\<open>undefined\<close>.
\<close>

definition set_status :: "bool \<Rightarrow> int \<Rightarrow> int \<Rightarrow> jsval \<Rightarrow> call list" where
  "set_status dbg time now result =
     [Status (if typeof (get_prop result ''status'') = TNumber
              then get_prop result ''status'' else JNum 200)]
     @ (case get_prop result ''count'' of
          JNum n \<Rightarrow> [Header ''X-Total-Count'' (JStr (toString n))]
        | _ \<Rightarrow> [])
     @ (if dbg then [Header ''X-Request-Duration'' (JStr (toString (now - time)))] else [])"

definition materialize :: "revision \<Rightarrow> bool \<Rightarrow> int \<Rightarrow> int \<Rightarrow> jsval \<Rightarrow> run" where
  "materialize rv dbg time now result =
     (if nullish result then throw (TypeError ''result.cookies'')
      else
        andThen (set_cookies result)
       (andThen (set_headers result)
         (if typeof (get_prop result ''redirect'') = TString
          then ok [Redirect (get_prop result ''redirect'')]
          else andThen (ok (set_status dbg time now result)) (write_body rv dbg result))))"

subsection \<open>The error interceptor (the \<^verbatim>\<open>catch\<close> callback)\<close>

text \<open>
  The first revision calls \<^verbatim>\<open>params.onError(error)\<close>, the second
  \<^verbatim>\<open>params.onError(error, request)\<close>. Reading \<^verbatim>\<open>errorData.status\<close> raises when the mapper
  handed back \<^verbatim>\<open>null\<close> or \<^verbatim>\<open>undefined\<close>, and reading \<^verbatim>\<open>error.message\<close> raises when the
  rejection value is \<^verbatim>\<open>null\<close> or \<^verbatim>\<open>undefined\<close>.
\<close>

definition onError_args :: "revision \<Rightarrow> jsval \<Rightarrow> jsval \<Rightarrow> jsval list" where
  "onError_args rv error request = (case rv of First \<Rightarrow> [error] | Second \<Rightarrow> [error, request])"

definition envelope :: "jsval \<Rightarrow> jsval" where
  "envelope errorData =
     JObj [(''error'', JObj [(''name'', get_prop errorData ''name''),
                             (''message'', get_prop errorData ''message''),
                             (''details'', get_prop errorData ''details'')])]"

definition internalError :: "jsval \<Rightarrow> jsval" where
  "internalError error =
     JObj [(''error'', JObj [(''name'', JStr ''internalError''),
                             (''message'', if truthy (get_prop error ''message'')
                                           then get_prop error ''message''
                                           else JStr ''Internal Error'')])]"

definition intercept :: "revision \<Rightarrow> Router \<Rightarrow> jsval \<Rightarrow> jsval \<Rightarrow> run" where
  "intercept rv params request error =
     (case (if truthy error then onError params else None) of
        Some mapper \<Rightarrow>
          (let errorData = mapper (onError_args rv error request) in
           andThen (ok [OnError (onError_args rv error request)])
             (if nullish errorData then throw (TypeError ''errorData.status'')
              else ok ((if truthy (get_prop errorData ''status'')
                        then [Status (get_prop errorData ''status'')] else [])
                       @ [Json (envelope errorData)])))
      | None \<Rightarrow>
          andThen (ok [LogError ''[path-router-express]'' error, Status (JNum 500)])
            (if nullish error then throw (TypeError ''error.message'')
             else ok [Json (internalError error)]))"

subsection \<open>The resolver chain and the dispatch (the first \<^verbatim>\<open>then\<close> callback)\<close>

text \<open>
  \<^verbatim>\<open>route.resolves.forEach((resolve) => { promises.push(resolve(request, response)); })\<close>:
  a resolver that throws leaves the loop and the listener with it.
\<close>

fun forEach_push :: "jsval \<Rightarrow> resolver list \<Rightarrow> jsval + awaited list" where
  "forEach_push request [] = Inr []"
| "forEach_push request (resolve # rest) =
     (case resolve request of
        Throws e \<Rightarrow> Inl e
      | Returns a \<Rightarrow>
          (case forEach_push request rest of
             Inl e \<Rightarrow> Inl e
           | Inr pushed \<Rightarrow> Inr (a # pushed)))"

text \<open>
  \<^verbatim>\<open>Promise.all\<close>: rejected with the reason of the rejection that comes first in time
  (the leftmost of those at the same instant), whatever the other entries do; otherwise
  fulfilled with the values in the order of the entries once every entry is fulfilled.
\<close>

fun first_rejection :: "awaited list \<Rightarrow> (nat \<times> jsval) option" where
  "first_rejection [] = None"
| "first_rejection (Rejects t e # rest) =
     (case first_rejection rest of
        None \<Rightarrow> Some (t, e)
      | Some (t', e') \<Rightarrow> if t' < t then Some (t', e') else Some (t, e))"
| "first_rejection (a # rest) = first_rejection rest"

fun fulfilment :: "awaited \<Rightarrow> jsval option" where
  "fulfilment (Value v) = Some v"
| "fulfilment (Fulfils t v) = Some v"
| "fulfilment a = None"

fun fulfilments :: "awaited list \<Rightarrow> jsval list option" where
  "fulfilments [] = Some []"
| "fulfilments (a # rest) =
     (case fulfilment a of
        None \<Rightarrow> None
      | Some v \<Rightarrow> (case fulfilments rest of None \<Rightarrow> None | Some vs \<Rightarrow> Some (v # vs)))"

definition Promise_all :: "awaited list \<Rightarrow> jsval list settlement" where
  "Promise_all promises =
     (case first_rejection promises of
        Some (t, e) \<Rightarrow> Rejected e
      | None \<Rightarrow> (case fulfilments promises of Some vs \<Rightarrow> Fulfilled vs | None \<Rightarrow> Pending))"

text \<open>What the promise made by \<^verbatim>\<open>then\<close> settles to, from what its callback did.\<close>

fun adopt :: "completion \<Rightarrow> jsval settlement" where
  "adopt (Throws e) = Rejected e"
| "adopt (Returns (Value v)) = Fulfilled v"
| "adopt (Returns (Fulfils t v)) = Fulfilled v"
| "adopt (Returns (Rejects t e)) = Rejected e"
| "adopt (Returns Hangs) = Pending"

text \<open>
  \<^verbatim>\<open>if (route.action) { return controller[route.action].apply(controller, results); }\<close>
  \<^verbatim>\<open>return route.callback(...results);\<close>
  An action name is truthy when it is not the empty string. The controller maps a name to
  the function stored under it; a missing controller, a missing member, a member that is
  not callable and a missing callback all raise.
\<close>

definition dispatch :: "Router \<Rightarrow> Route \<Rightarrow> jsval list \<Rightarrow> call list \<times> completion" where
  "dispatch params route results =
     (if (case action route of Some name \<Rightarrow> name \<noteq> [] | None \<Rightarrow> False) then
        (case action route of
           Some name \<Rightarrow>
             (case controller params of
                None \<Rightarrow> ([], Throws (TypeError ''controller[route.action]''))
              | Some members \<Rightarrow>
                  (case members name of
                     None \<Rightarrow> ([], Throws (TypeError ''controller[route.action].apply''))
                   | Some f \<Rightarrow> ([Action name results], f results)))
         | None \<Rightarrow> ([], Throws (TypeError ''route.action'')))
      else
        (case callback route of
           None \<Rightarrow> ([], Throws (TypeError ''route.callback''))
         | Some f \<Rightarrow> ([Callback results], f results)))"

subsection \<open>The listener\<close>

text \<open>
  How a request ends: the chain settled (\<open>Settled\<close>), a promise in it never settles
  (\<open>Stalled\<close>), an exception left the listener before the chain was built (\<open>Uncaught\<close>),
  or the \<^verbatim>\<open>catch\<close> callback itself raised (\<open>Unhandled\<close>).
\<close>

datatype ending = Settled | Stalled | Uncaught jsval | Unhandled jsval

definition catch :: "revision \<Rightarrow> Router \<Rightarrow> jsval \<Rightarrow> call list \<Rightarrow> jsval \<Rightarrow> call list \<times> ending" where
  "catch rv params request earlier error =
     (case intercept rv params request error of
        (cs, None) \<Rightarrow> (earlier @ cs, Settled)
      | (cs, Some e) \<Rightarrow> (earlier @ cs, Unhandled e))"

definition chain ::
  "revision \<Rightarrow> Router \<Rightarrow> Route \<Rightarrow> int \<Rightarrow> int \<Rightarrow> jsval \<Rightarrow> jsval list settlement \<Rightarrow> call list \<times> ending"
where
  "chain rv params route time now request all =
     (case all of
        Pending \<Rightarrow> ([], Stalled)
      | Rejected e \<Rightarrow> catch rv params request [] e
      | Fulfilled results \<Rightarrow>
          (case dispatch params route results of
             (ds, c) \<Rightarrow>
               (case adopt c of
                  Pending \<Rightarrow> (ds, Stalled)
                | Rejected e \<Rightarrow> catch rv params request ds e
                | Fulfilled result \<Rightarrow>
                    (case materialize rv (debug params) time now result of
                       (ms, None) \<Rightarrow> (ds @ ms, Settled)
                     | (ms, Some e) \<Rightarrow> catch rv params request (ds @ ms) e))))"

text \<open>
  The first revision iterates over \<^verbatim>\<open>route.resolves\<close> unguarded, the second inside
  \<^verbatim>\<open>if (route.resolves)\<close>. The list of promises starts with \<^verbatim>\<open>Promise.resolve(request)\<close>.
\<close>

definition listener ::
  "revision \<Rightarrow> Router \<Rightarrow> Route \<Rightarrow> int \<Rightarrow> int \<Rightarrow> jsval \<Rightarrow> call list \<times> ending"
where
  "listener rv params route time now request =
     (case (case resolves route of
              None \<Rightarrow>
                (case rv of
                   First \<Rightarrow> Inl (TypeError ''route.resolves.forEach'')
                 | Second \<Rightarrow> Inr [])
            | Some rs \<Rightarrow> forEach_push request rs) of
        Inl e \<Rightarrow> ([], Uncaught e)
      | Inr pushed \<Rightarrow>
          chain rv params route time now request (Promise_all (Fulfils 0 request # pushed)))"

text \<open>The router is the list of its registrations, in the order they were made.\<close>

type_synonym registration = "Method \<times> string \<times> (int \<Rightarrow> int \<Rightarrow> jsval \<Rightarrow> call list \<times> ending)"

definition handler ::
  "registration list \<Rightarrow> Method \<Rightarrow> string \<Rightarrow> (int \<Rightarrow> int \<Rightarrow> jsval \<Rightarrow> call list \<times> ending) \<Rightarrow> registration list"
where
  "handler router m p l =
     (case m of
        get \<Rightarrow> router @ [(get, p, l)]
      | post \<Rightarrow> router @ [(post, p, l)]
      | patch \<Rightarrow> router @ [(patch, p, l)]
      | put \<Rightarrow> router @ [(put, p, l)]
      | delete \<Rightarrow> router @ [(delete, p, l)])"

definition createRouter :: "revision \<Rightarrow> Router \<Rightarrow> registration list" where
  "createRouter rv params =
     foldl (\<lambda>router route. handler router (http_method route) (path route) (listener rv params route))
       [] (routes params)"

subsection \<open>Reading a run\<close>

text \<open>The calls that write a response body, and the calls that invoke the dispatch target.\<close>

fun body_write :: "call \<Rightarrow> bool" where
  "body_write (End v) = True"
| "body_write (Json v) = True"
| "body_write (Pipe v) = True"
| "body_write c = False"

fun dispatch_call :: "call \<Rightarrow> bool" where
  "dispatch_call (Action name args) = True"
| "dispatch_call (Callback args) = True"
| "dispatch_call c = False"

text \<open>The status the sink is left with: the argument of the last \<^verbatim>\<open>response.status\<close>.\<close>

fun final_status :: "call list \<Rightarrow> jsval option" where
  "final_status [] = None"
| "final_status (c # cs) =
     (case final_status cs of
        Some s \<Rightarrow> Some s
      | None \<Rightarrow> (case c of Status s \<Rightarrow> Some s | _ \<Rightarrow> None))"

subsection \<open>Body selection as the specification words it\<close>

text \<open>
  Rule 7 of the specification's materializer: the five body fields in their fixed order,
  when each counts as present (\<open>binary\<close>: a truthy value; \<open>json\<close>: an object, arrays and
  \<^verbatim>\<open>null\<close> included; \<open>text\<close> and \<open>content\<close>: a string; \<open>stream\<close>: an object), and the
  first present field with its value. \<open>selected_body\<close> is what the branch of the selected
  field writes, branch by branch as in the code; it is handed the selected field and its
  value only, next to the debug payload and the headers mapping.
\<close>

datatype body_field = Binary | JsonField | Text | Content | Stream

fun field_name :: "body_field \<Rightarrow> string" where
  "field_name Binary = ''binary''"
| "field_name JsonField = ''json''"
| "field_name Text = ''text''"
| "field_name Content = ''content''"
| "field_name Stream = ''stream''"

fun rank :: "body_field \<Rightarrow> nat" where
  "rank Binary = 0"
| "rank JsonField = 1"
| "rank Text = 2"
| "rank Content = 3"
| "rank Stream = 4"

definition precedence :: "body_field list" where
  "precedence = [Binary, JsonField, Text, Content, Stream]"

fun present :: "body_field \<Rightarrow> jsval \<Rightarrow> bool" where
  "present Binary v = truthy v"
| "present JsonField v = (typeof v = TObject)"
| "present Text v = (typeof v = TString)"
| "present Content v = (typeof v = TString)"
| "present Stream v = (typeof v = TObject)"

definition first_present :: "jsval \<Rightarrow> (body_field \<times> jsval) option" where
  "first_present result =
     (case find (\<lambda>f. present f (get_prop result (field_name f))) precedence of
        None \<Rightarrow> None
      | Some f \<Rightarrow> Some (f, get_prop result (field_name f)))"

text \<open>
  The header test of the \<open>content\<close> rule as the code makes it: the second revision looks
  for a truthy value under the two exact names, the first revision makes no test.
\<close>

definition explicit_content_type :: "revision \<Rightarrow> jsval \<Rightarrow> bool" where
  "explicit_content_type rv headers =
     (rv = Second \<and> truthy headers \<and>
      (truthy (get_prop headers ''Content-Type'') \<or> truthy (get_prop headers ''content-type'')))"

fun selected_body :: "revision \<Rightarrow> bool \<Rightarrow> jsval \<Rightarrow> jsval \<Rightarrow> (body_field \<times> jsval) option \<Rightarrow> run" where
  "selected_body rv dbg d h (Some (Binary, v)) = ok [End v]"
| "selected_body rv dbg d h (Some (JsonField, v)) =
     ok [Json (if truthy v \<and> dbg \<and> truthy d then assign v ''debug'' d else v)]"
| "selected_body rv dbg d h (Some (Text, v)) = ok [End v]"
| "selected_body rv dbg d h (Some (Content, v)) =
     ok ((if explicit_content_type rv h then [] else [ContentType ''text/html; charset=UTF-8''])
         @ [End v])"
| "selected_body rv dbg d h (Some (Stream, v)) =
     (if typeof (get_prop v ''pipe'') \<noteq> TFunction then throw (TypeError ''result.stream.pipe'')
      else if typeof (get_prop v ''on'') \<noteq> TFunction
        then ([Pipe v], Some (TypeError ''result.stream.on''))
      else ok [Pipe v, OnEnd v])"
| "selected_body rv dbg d h None =
     ok [Status (JNum 400),
         Json (JObj [(''error'', JObj [(''name'', JStr ''badRequest''),
                                       (''message'', JStr ''Bad Request'')])])]"

text \<open>
  The case-insensitive reading of "a content-type header was set through the headers
  mapping": some \<^verbatim>\<open>response.header\<close> call of the run names content-type in any casing.
\<close>

definition lower_char :: "char \<Rightarrow> char" where
  "lower_char c =
     (case map_of (zip ''ABCDEFGHIJKLMNOPQRSTUVWXYZ'' ''abcdefghijklmnopqrstuvwxyz'') c of
        Some l \<Rightarrow> l
      | None \<Rightarrow> c)"

fun names_content_type :: "call \<Rightarrow> bool" where
  "names_content_type (Header k v) = (map lower_char k = ''content-type'')"
| "names_content_type c = False"

subsection \<open>Example collaborators\<close>

text \<open>
  Resolvers, dispatch targets and an error mapper for the concrete runs below: a resolver
  whose promise is rejected or fulfilled at a given instant, one that returns a plain
  value, a target that returns a given result, a target that returns its own arguments
  as the \<open>json\<close> body, and a mapper that maps every error to
  \<^verbatim>\<open>{status: 404, name: "notFound"}\<close>.
\<close>

definition rejecting :: "nat \<Rightarrow> jsval \<Rightarrow> resolver" where
  "rejecting t e request = Returns (Rejects t e)"

definition resolving :: "nat \<Rightarrow> jsval \<Rightarrow> resolver" where
  "resolving t v request = Returns (Fulfils t v)"

definition returning :: "jsval \<Rightarrow> resolver" where
  "returning v request = Returns (Value v)"

definition answering :: "jsval \<Rightarrow> target" where
  "answering result args = Returns (Value result)"

definition echoing :: target where
  "echoing args = Returns (Value (JObj [(''json'', JObj (zip [''0'', ''1'', ''2'', ''3''] args))]))"

definition notFound_mapper :: "jsval list \<Rightarrow> jsval" where
  "notFound_mapper args = JObj [(''status'', JNum 404), (''name'', JStr ''notFound'')]"

section \<open>Properties\<close>

subsection \<open>Values and runs\<close>

lemma get_prop_update:
  "get_prop (JObj (AList.update k v ps)) k' = (if k' = k then v else get_prop (JObj ps) k')"
  by (simp add: update_conv')

lemma andThen_returns [simp]: "andThen (cs, None) r = (cs @ fst r, snd r)"
  by (simp add: andThen_def)

lemma andThen_throws [simp]: "andThen (cs, Some e) r = (cs, Some e)"
  by (simp add: andThen_def)

subsection \<open>Body selection\<close>

lemma write_body_refines:
  "write_body rv dbg result =
     selected_body rv dbg (get_prop result ''debug'') (get_prop result ''headers'')
       (first_present result)"
  by (cases rv)
    (simp_all add: write_body_def first_present_def precedence_def explicit_content_type_def
       andThen_def ok_def throw_def)

lemma later_field_ignored:
  assumes "first_present result = Some (f, v)" and "rank f < rank g"
  shows "write_body rv dbg (assign result (field_name g) w) = write_body rv dbg result"
proof (cases result)
  case (JObj ps)
  have names: "field_name g \<noteq> ''debug''" "field_name g \<noteq> ''headers''"
    by (cases g; simp)+
  have "first_present (assign result (field_name g) w) = Some (f, v)"
    using assms unfolding JObj first_present_def precedence_def
    by (cases f; cases g; simp add: get_prop_update del: get_prop.simps split: if_splits)
  then show ?thesis
    using assms names unfolding write_body_refines JObj
    by (simp add: get_prop_update del: get_prop.simps)
qed simp_all

lemma selected_body_writes:
  "length (filter body_write (fst (selected_body rv dbg d h sel))) \<le> 1 \<and>
   (snd (selected_body rv dbg d h sel) = None \<longrightarrow>
      length (filter body_write (fst (selected_body rv dbg d h sel))) = 1)"
  by (cases "(rv, dbg, d, h, sel)" rule: selected_body.cases) (simp_all add: ok_def throw_def)

subsection \<open>The steps before the body\<close>

lemma forEach_cookie_calls:
  "filter body_write (fst (forEach_cookie cookies keys)) = [] \<and>
   filter dispatch_call (fst (forEach_cookie cookies keys)) = [] \<and>
   final_status (fst (forEach_cookie cookies keys)) = None"
  by (induction keys) (simp_all add: ok_def throw_def Let_def)

lemma set_cookies_calls:
  "filter body_write (fst (set_cookies result)) = [] \<and>
   filter dispatch_call (fst (set_cookies result)) = [] \<and>
   final_status (fst (set_cookies result)) = None"
  using forEach_cookie_calls
  by (simp add: set_cookies_def ok_def throw_def split: jsval.splits)

lemma final_status_headers: "final_status (map (\<lambda>x. Header (k x) (v x)) xs) = None"
  by (induction xs) simp_all

lemma set_headers_calls:
  "filter body_write (fst (set_headers result)) = [] \<and>
   filter dispatch_call (fst (set_headers result)) = [] \<and>
   final_status (fst (set_headers result)) = None"
  by (simp add: set_headers_def ok_def throw_def final_status_headers comp_def split: jsval.splits)

lemma set_status_calls:
  "filter body_write (set_status dbg time now result) = [] \<and>
   filter dispatch_call (set_status dbg time now result) = []"
  by (simp add: set_status_def split: jsval.splits)

lemma final_status_append:
  "final_status (xs @ ys) = (case final_status ys of Some s \<Rightarrow> Some s | None \<Rightarrow> final_status xs)"
  by (induction xs) (simp_all split: option.splits)

lemma materialize_reaches_body:
  assumes "\<not> nullish result" and "set_cookies result = ok cs" and "set_headers result = ok hs"
    and "typeof (get_prop result ''redirect'') \<noteq> TString"
  shows "materialize rv dbg time now result =
           andThen (ok (cs @ hs @ set_status dbg time now result)) (write_body rv dbg result)"
  using assms by (simp add: materialize_def ok_def andThen_def)

subsection \<open>Claims about the response materializer\<close>

text \<open>
  \<^bold>\<open>C1.\<close> The body is selected by the fixed order binary, json, text, content, stream, and
  the first present field wins: \<open>write_body\<close> is \<open>selected_body\<close> applied to the first
  present field and its value, so what is written is a function of that field alone
  (next to the debug payload and the headers mapping). Once a field is the first present
  one, assigning any value to a field later in the order changes nothing. Exactly one
  branch fires: the run holds at most one body write, and exactly one unless the stream
  branch raised. Present is what rule 7 asks of each field: a truthy \<open>binary\<close>, an
  object-typed \<open>json\<close>, a string \<open>text\<close> or \<open>content\<close>, an object-typed \<open>stream\<close>.
  \<open>write_body\<close> is the step the materializer ends with whenever the result carries no
  string \<open>redirect\<close> (lemma \<open>materialize_reaches_body\<close>).
\<close>

theorem body_selection_precedence:
  "write_body rv dbg result =
     selected_body rv dbg (get_prop result ''debug'') (get_prop result ''headers'')
       (first_present result)
   \<and> (\<forall>f v g w. first_present result = Some (f, v) \<and> rank f < rank g \<longrightarrow>
          write_body rv dbg (assign result (field_name g) w) = write_body rv dbg result)
   \<and> length (filter body_write (fst (write_body rv dbg result))) \<le> 1
   \<and> (snd (write_body rv dbg result) = None \<longrightarrow>
          length (filter body_write (fst (write_body rv dbg result))) = 1)"
proof (intro conjI allI impI)
  show "write_body rv dbg result =
     selected_body rv dbg (get_prop result ''debug'') (get_prop result ''headers'')
       (first_present result)"
    by (rule write_body_refines)
next
  fix f v g w
  assume "first_present result = Some (f, v) \<and> rank f < rank g"
  then show "write_body rv dbg (assign result (field_name g) w) = write_body rv dbg result"
    using later_field_ignored by blast
next
  show "length (filter body_write (fst (write_body rv dbg result))) \<le> 1"
    unfolding write_body_refines using selected_body_writes by blast
next
  assume "snd (write_body rv dbg result) = None"
  then show "length (filter body_write (fst (write_body rv dbg result))) = 1"
    unfolding write_body_refines using selected_body_writes by blast
qed

theorem body_selection_precedence_witness:
  "first_present (JObj [(''json'', JObj [(''a'', JNum 1)]), (''text'', JStr ''t''), (''stream'', JNull)])
     = Some (JsonField, JObj [(''a'', JNum 1)])
   \<and> rank JsonField < rank Text
   \<and> write_body Second False
        (assign (JObj [(''json'', JObj [(''a'', JNum 1)]), (''text'', JStr ''t''), (''stream'', JNull)])
           (field_name Text) (JStr ''other''))
     = write_body Second False
         (JObj [(''json'', JObj [(''a'', JNum 1)]), (''text'', JStr ''t''), (''stream'', JNull)])
   \<and> write_body Second False
        (JObj [(''json'', JObj [(''a'', JNum 1)]), (''text'', JStr ''t''), (''stream'', JNull)])
     = ok [Json (JObj [(''a'', JNum 1)])]
   \<and> length (filter body_write (fst (write_body Second False
        (JObj [(''json'', JObj [(''a'', JNum 1)]), (''text'', JStr ''t''), (''stream'', JNull)])))) = 1"
  using body_selection_precedence
    [of Second False "JObj [(''json'', JObj [(''a'', JNum 1)]), (''text'', JStr ''t''), (''stream'', JNull)]"]
  by (simp add: first_present_def precedence_def write_body_def ok_def)

text \<open>
  \<^bold>\<open>C3.\<close> When the materializer reaches the body rules (the result is an object whose
  cookies and headers were applied and which carries no string \<open>redirect\<close>) and none of
  the five body fields is present, the run ends with \<^verbatim>\<open>response.status(400)\<close> followed by
  the \<open>badRequest\<close> envelope: the sink is left with status 400 whatever status the
  result carried, and the envelope is the only body written.
\<close>

theorem no_body_field_is_bad_request:
  assumes "\<not> nullish result" and "set_cookies result = ok cs" and "set_headers result = ok hs"
    and "typeof (get_prop result ''redirect'') \<noteq> TString"
    and "\<And>f. \<not> present f (get_prop result (field_name f))"
  shows "materialize rv dbg time now result =
           ok (cs @ hs @ set_status dbg time now result @
               [Status (JNum 400),
                Json (JObj [(''error'', JObj [(''name'', JStr ''badRequest''),
                                              (''message'', JStr ''Bad Request'')])])])
         \<and> final_status (fst (materialize rv dbg time now result)) = Some (JNum 400)
         \<and> filter body_write (fst (materialize rv dbg time now result)) =
             [Json (JObj [(''error'', JObj [(''name'', JStr ''badRequest''),
                                            (''message'', JStr ''Bad Request'')])])]"
proof -
  have none: "first_present result = None"
    using assms(5) by (simp add: first_present_def precedence_def)
  have run: "materialize rv dbg time now result =
           ok (cs @ hs @ set_status dbg time now result @
               [Status (JNum 400),
                Json (JObj [(''error'', JObj [(''name'', JStr ''badRequest''),
                                              (''message'', JStr ''Bad Request'')])])])"
    using materialize_reaches_body [OF assms(1-4)] none
    by (simp add: write_body_refines ok_def)
  have c: "filter body_write cs = []" using set_cookies_calls [of result] assms(2) by (simp add: ok_def)
  have h: "filter body_write hs = []" using set_headers_calls [of result] assms(3) by (simp add: ok_def)
  show ?thesis
    using c h set_status_calls [of dbg time now result]
    by (simp add: run ok_def final_status_append)
qed

theorem no_body_field_is_bad_request_witness:
  "\<not> nullish (JObj [(''status'', JNum 200)])
   \<and> set_cookies (JObj [(''status'', JNum 200)]) = ok []
   \<and> set_headers (JObj [(''status'', JNum 200)]) = ok []
   \<and> typeof (get_prop (JObj [(''status'', JNum 200)]) ''redirect'') \<noteq> TString
   \<and> (\<forall>f. \<not> present f (get_prop (JObj [(''status'', JNum 200)]) (field_name f)))
   \<and> materialize Second False 0 0 (JObj [(''status'', JNum 200)]) =
        ok [Status (JNum 200), Status (JNum 400),
            Json (JObj [(''error'', JObj [(''name'', JStr ''badRequest''),
                                          (''message'', JStr ''Bad Request'')])])]
   \<and> final_status (fst (materialize Second False 0 0 (JObj [(''status'', JNum 200)]))) = Some (JNum 400)"
proof -
  have p: "\<And>f. \<not> present f (get_prop (JObj [(''status'', JNum 200)]) (field_name f))"
  proof -
    fix f show "\<not> present f (get_prop (JObj [(''status'', JNum 200)]) (field_name f))"
      by (cases f) simp_all
  qed
  have c: "set_cookies (JObj [(''status'', JNum 200)]) = ok []"
    by (simp add: set_cookies_def)
  have h: "set_headers (JObj [(''status'', JNum 200)]) = ok []"
    by (simp add: set_headers_def)
  from no_body_field_is_bad_request [of "JObj [(''status'', JNum 200)]" "[]" "[]" Second False 0 0, OF _ c h _ p]
  show ?thesis using p c h by (simp add: set_status_def ok_def)
qed

text \<open>
  \<^bold>\<open>C4\<close>, as the claim states it, fails: the second revision looks for the two exact names
  \<^verbatim>\<open>Content-Type\<close> and \<^verbatim>\<open>content-type\<close> only. A result whose headers mapping sets
  \<^verbatim>\<open>CONTENT-TYPE\<close> has a content-type header set through the mapping, and the content
  type is overridden to HTML all the same.
\<close>

theorem content_type_case_counterexample:
  "list_ex names_content_type
     (fst (set_headers (JObj [(''content'', JStr ''<p>hi</p>''),
                              (''headers'', JObj [(''CONTENT-TYPE'', JStr ''text/plain'')])])))
   \<and> first_present (JObj [(''content'', JStr ''<p>hi</p>''),
                          (''headers'', JObj [(''CONTENT-TYPE'', JStr ''text/plain'')])])
       = Some (Content, JStr ''<p>hi</p>'')
   \<and> materialize Second False 0 0
        (JObj [(''content'', JStr ''<p>hi</p>''),
               (''headers'', JObj [(''CONTENT-TYPE'', JStr ''text/plain'')])])
       = ok [Header ''CONTENT-TYPE'' (JStr ''text/plain''), Status (JNum 200),
             ContentType ''text/html; charset=UTF-8'', End (JStr ''<p>hi</p>'')]"
  by (simp add: materialize_def set_cookies_def set_headers_def set_status_def write_body_def
      first_present_def precedence_def lower_char_def ok_def)

text \<open>
  \<^bold>\<open>C4\<close>, amended: when the body is selected by the \<open>content\<close> field, the second revision
  leaves the content type alone exactly when the result's headers value is truthy and
  holds a truthy value under the exact name \<^verbatim>\<open>Content-Type\<close> or \<^verbatim>\<open>content-type\<close>; in
  every other case, and always in the first revision, the materializer sets
  \<^verbatim>\<open>text/html; charset=UTF-8\<close> right before it writes the literal string.
\<close>

theorem content_type_fallback:
  assumes "\<not> nullish result" and "set_cookies result = ok cs" and "set_headers result = ok hs"
    and "typeof (get_prop result ''redirect'') \<noteq> TString"
    and "first_present result = Some (Content, c)"
  shows "materialize rv dbg time now result =
           ok (cs @ hs @ set_status dbg time now result @
               (if rv = Second \<and> truthy (get_prop result ''headers'') \<and>
                   (truthy (get_prop (get_prop result ''headers'') ''Content-Type'') \<or>
                    truthy (get_prop (get_prop result ''headers'') ''content-type''))
                then [] else [ContentType ''text/html; charset=UTF-8'']) @
               [End c])"
  using materialize_reaches_body [OF assms(1-4)] assms(5)
  by (simp add: write_body_refines ok_def explicit_content_type_def)

theorem content_type_fallback_witness:
  "materialize Second False 0 0
     (JObj [(''content'', JStr ''<p>hi</p>''), (''headers'', JObj [(''content-type'', JStr ''text/plain'')])])
   = ok [Header ''content-type'' (JStr ''text/plain''), Status (JNum 200), End (JStr ''<p>hi</p>'')]
   \<and> materialize First False 0 0
     (JObj [(''content'', JStr ''<p>hi</p>''), (''headers'', JObj [(''content-type'', JStr ''text/plain'')])])
   = ok [Header ''content-type'' (JStr ''text/plain''), Status (JNum 200),
         ContentType ''text/html; charset=UTF-8'', End (JStr ''<p>hi</p>'')]"
proof -
  let ?r = "JObj [(''content'', JStr ''<p>hi</p>''), (''headers'', JObj [(''content-type'', JStr ''text/plain'')])]"
  have c: "set_cookies ?r = ok []"
    by (simp add: set_cookies_def)
  have h: "set_headers ?r = ok [Header ''content-type'' (JStr ''text/plain'')]"
    by (simp add: set_headers_def)
  have n: "\<not> nullish ?r" and r: "typeof (get_prop ?r ''redirect'') \<noteq> TString"
    by simp_all
  have f: "first_present ?r = Some (Content, JStr ''<p>hi</p>'')"
    by (simp add: first_present_def precedence_def)
  show ?thesis
    using content_type_fallback [OF n c h r f, of Second False 0 0]
      content_type_fallback [OF n c h r f, of First False 0 0]
    by (simp add: set_status_def)
qed

text \<open>
  \<^bold>\<open>C10.\<close> A result whose \<open>json\<close> is \<^verbatim>\<open>null\<close> (and whose \<open>binary\<close> is not truthy, the one
  field ahead of \<open>json\<close>) takes the JSON branch: \<^verbatim>\<open>response.json(null)\<close> is the body,
  whatever \<open>text\<close>, \<open>content\<close>, \<open>stream\<close> and \<open>debug\<close> hold, in debug mode or not.
\<close>

theorem null_json_is_written:
  assumes "get_prop result ''json'' = JNull" and "\<not> truthy (get_prop result ''binary'')"
  shows "write_body rv dbg result = ok [Json JNull]
         \<and> (\<not> nullish result \<and> set_cookies result = ok cs \<and> set_headers result = ok hs \<and>
             typeof (get_prop result ''redirect'') \<noteq> TString \<longrightarrow>
             materialize rv dbg time now result =
               ok (cs @ hs @ set_status dbg time now result @ [Json JNull]))"
proof -
  have w: "write_body rv dbg result = ok [Json JNull]"
    using assms by (simp add: write_body_def)
  show ?thesis
    using w materialize_reaches_body [of result cs hs rv dbg time now]
    by (simp add: ok_def)
qed

theorem null_json_is_written_witness:
  "get_prop (JObj [(''json'', JNull), (''text'', JStr ''t''), (''content'', JStr ''c''),
                   (''stream'', JObj [(''pipe'', JFun 0), (''on'', JFun 1)])]) ''json'' = JNull
   \<and> \<not> truthy (get_prop (JObj [(''json'', JNull), (''text'', JStr ''t''), (''content'', JStr ''c''),
                   (''stream'', JObj [(''pipe'', JFun 0), (''on'', JFun 1)])]) ''binary'')
   \<and> write_body Second True (JObj [(''json'', JNull), (''text'', JStr ''t''), (''content'', JStr ''c''),
                   (''stream'', JObj [(''pipe'', JFun 0), (''on'', JFun 1)])]) = ok [Json JNull]
   \<and> materialize Second True 0 7 (JObj [(''json'', JNull), (''text'', JStr ''t''), (''content'', JStr ''c''),
                   (''stream'', JObj [(''pipe'', JFun 0), (''on'', JFun 1)])])
       = ok [Status (JNum 200), Header ''X-Request-Duration'' (JStr (toString 7)), Json JNull]"
proof -
  let ?r = "JObj [(''json'', JNull), (''text'', JStr ''t''), (''content'', JStr ''c''),
                  (''stream'', JObj [(''pipe'', JFun 0), (''on'', JFun 1)])]"
  have c: "set_cookies ?r = ok []"
    by (simp add: set_cookies_def)
  have h: "set_headers ?r = ok []"
    by (simp add: set_headers_def)
  show ?thesis
    using c h null_json_is_written [of ?r Second True "[]" "[]" 0 7]
    by (simp add: set_status_def)
qed

subsection \<open>The error interceptor\<close>

lemma intercept_unmapped:
  assumes "onError params = None \<or> \<not> truthy error" and "\<not> nullish error"
  shows "intercept rv params request error =
           ok [LogError ''[path-router-express]'' error, Status (JNum 500),
               Json (JObj [(''error'', JObj [(''name'', JStr ''internalError''),
                  (''message'', if truthy (get_prop error ''message'')
                                then get_prop error ''message'' else JStr ''Internal Error'')])])]"
  using assms by (auto simp: intercept_def internalError_def ok_def)

lemma intercept_nullish:
  assumes "nullish error"
  shows "intercept rv params request error =
           ([LogError ''[path-router-express]'' error, Status (JNum 500)],
            Some (TypeError ''error.message''))"
  using assms by (cases error) (simp_all add: intercept_def ok_def throw_def)

lemma intercept_writes_once:
  assumes "\<not> nullish error"
    and "\<And>mapper. onError params = Some mapper \<Longrightarrow> \<not> nullish (mapper (onError_args rv error request))"
  shows "snd (intercept rv params request error) = None \<and>
         length (filter body_write (fst (intercept rv params request error))) = 1"
  using assms by (auto simp: intercept_def ok_def Let_def split: option.splits)

text \<open>
  \<^bold>\<open>C5\<close>, as the claim states it, fails: the mapper is consulted for a truthy rejection
  value only (\<^verbatim>\<open>if (error && typeof params.onError === "function")\<close>). With a mapper
  configured, a resolver whose promise is rejected with \<^verbatim>\<open>false\<close> is answered by the
  fallback: the mapper is not invoked, the status is 500 and the envelope is the
  \<open>internalError\<close> one.
\<close>

theorem falsy_rejection_skips_mapper_counterexample:
  "listener Second
     \<lparr>debug = False, controller = None, onError = Some notFound_mapper, routes = []\<rparr>
     \<lparr>http_method = get, path = ''/u/:id'', resolves = Some [rejecting 0 (JBool False)],
      action = None, callback = Some (answering (JObj []))\<rparr>
     0 0 (JObj [(''url'', JStr ''/u/7'')])
   = ([LogError ''[path-router-express]'' (JBool False), Status (JNum 500),
       Json (JObj [(''error'', JObj [(''name'', JStr ''internalError''),
                                     (''message'', JStr ''Internal Error'')])])],
      Settled)"
  by (simp add: listener_def rejecting_def Promise_all_def chain_def catch_def intercept_def
      internalError_def ok_def)

text \<open>
  \<^bold>\<open>C5\<close>, amended: for every truthy rejection value, when \<open>onError\<close> is a function and
  hands back an object, the interceptor invokes it (with the error alone in the first
  revision, with the error and the request in the second), sets the mapped status when
  that status is truthy, and writes the envelope with the mapped name, message and
  details exactly as handed back, \<^verbatim>\<open>undefined\<close> included.
\<close>

theorem mapped_error_passes_through:
  assumes "truthy error" and "onError params = Some mapper"
    and "mapper (case rv of First \<Rightarrow> [error] | Second \<Rightarrow> [error, request]) = errorData"
    and "\<not> nullish errorData"
  shows "intercept rv params request error =
           ok ([OnError (case rv of First \<Rightarrow> [error] | Second \<Rightarrow> [error, request])]
               @ (if truthy (get_prop errorData ''status'')
                  then [Status (get_prop errorData ''status'')] else [])
               @ [Json (JObj [(''error'', JObj [(''name'', get_prop errorData ''name''),
                                                (''message'', get_prop errorData ''message''),
                                                (''details'', get_prop errorData ''details'')])])])"
  using assms by (simp add: intercept_def onError_args_def envelope_def ok_def)

theorem mapped_error_passes_through_witness:
  "truthy (JObj [(''message'', JStr ''no such user'')])
   \<and> onError \<lparr>debug = False, controller = None, onError = Some notFound_mapper, routes = []\<rparr>
       = Some notFound_mapper
   \<and> \<not> nullish (notFound_mapper [JObj [(''message'', JStr ''no such user'')], JObj [(''url'', JStr ''/u/7'')]])
   \<and> intercept Second \<lparr>debug = False, controller = None, onError = Some notFound_mapper, routes = []\<rparr>
        (JObj [(''url'', JStr ''/u/7'')]) (JObj [(''message'', JStr ''no such user'')])
       = ok [OnError [JObj [(''message'', JStr ''no such user'')], JObj [(''url'', JStr ''/u/7'')]],
             Status (JNum 404),
             Json (JObj [(''error'', JObj [(''name'', JStr ''notFound''),
                                           (''message'', JUndefined),
                                           (''details'', JUndefined)])])]"
  using mapped_error_passes_through
    [where error = "JObj [(''message'', JStr ''no such user'')]"
       and params = "\<lparr>debug = False, controller = None, onError = Some notFound_mapper, routes = []\<rparr>"
       and mapper = notFound_mapper and rv = Second and request = "JObj [(''url'', JStr ''/u/7'')]"
       and errorData = "notFound_mapper [JObj [(''message'', JStr ''no such user'')], JObj [(''url'', JStr ''/u/7'')]]"]
  by (simp add: notFound_mapper_def)

text \<open>
  \<^bold>\<open>C6\<close> fails on the code for a rejection with \<^verbatim>\<open>undefined\<close> or \<^verbatim>\<open>null\<close>: with no mapper
  configured the error is logged once and status 500 is set, and then reading
  \<^verbatim>\<open>error.message\<close> raises, so no envelope is written. For every other rejection value
  the claim holds (lemma \<open>intercept_unmapped\<close>).
\<close>

theorem nullish_rejection_without_mapper:
  "listener Second
     \<lparr>debug = False, controller = None, onError = None, routes = []\<rparr>
     \<lparr>http_method = get, path = ''/u/:id'', resolves = Some [rejecting 0 JUndefined],
      action = None, callback = Some (answering (JObj []))\<rparr>
     0 0 (JObj [(''url'', JStr ''/u/7'')])
   = ([LogError ''[path-router-express]'' JUndefined, Status (JNum 500)],
      Unhandled (TypeError ''error.message''))"
  by (simp add: listener_def rejecting_def Promise_all_def chain_def catch_def intercept_def
      ok_def throw_def)

text \<open>
  \<^bold>\<open>C7\<close> fails on the code for the two rejection values the claim names: for \<^verbatim>\<open>null\<close>
  and \<^verbatim>\<open>undefined\<close> the interceptor raises, in both revisions and whether a mapper is
  configured or not, after it has set status 500 and before any body is written. For
  every other rejection value it returns and writes exactly once, provided the mapper
  hands back an object (lemma \<open>intercept_writes_once\<close>).
\<close>

theorem interceptor_throws_on_nullish:
  "intercept rv params request JNull =
     ([LogError ''[path-router-express]'' JNull, Status (JNum 500)],
      Some (TypeError ''error.message''))
   \<and> intercept rv params request JUndefined =
     ([LogError ''[path-router-express]'' JUndefined, Status (JNum 500)],
      Some (TypeError ''error.message''))
   \<and> filter body_write (fst (intercept rv params request JNull)) = []
   \<and> filter body_write (fst (intercept rv params request JUndefined)) = []
   \<and> catch rv params request [] JNull =
     ([LogError ''[path-router-express]'' JNull, Status (JNum 500)],
      Unhandled (TypeError ''error.message''))"
  by (simp add: intercept_nullish catch_def)

subsection \<open>The resolver chain and the dispatch\<close>

lemma forEach_push_returns:
  "map (\<lambda>resolve. resolve request) rs = map Returns as \<Longrightarrow> forEach_push request rs = Inr as"
  by (induction rs arbitrary: as) auto

lemma all_fulfilled:
  "map fulfilment as = map Some vs \<Longrightarrow> first_rejection as = None \<and> fulfilments as = Some vs"
proof (induction as arbitrary: vs)
  case Nil
  then show ?case by simp
next
  case (Cons a as)
  then obtain v vs' where vs: "vs = v # vs'" "fulfilment a = Some v" "map fulfilment as = map Some vs'"
    by (cases vs) auto
  with Cons.IH [of vs'] show ?case
    by (cases a) simp_all
qed

lemma Promise_all_fulfilled:
  "map fulfilment as = map Some vs \<Longrightarrow>
     Promise_all (Fulfils 0 request # as) = Fulfilled (request # vs)"
  using all_fulfilled [of as vs] by (simp add: Promise_all_def)

lemma andThen_filter:
  "filter P (fst (andThen a b)) =
     (case snd a of None \<Rightarrow> filter P (fst a) @ filter P (fst b) | Some e \<Rightarrow> filter P (fst a))"
  by (simp add: andThen_def split: option.splits)

lemma write_body_no_dispatch: "filter dispatch_call (fst (write_body rv dbg result)) = []"
  unfolding write_body_refines
  by (cases "(rv, dbg, get_prop result ''debug'', get_prop result ''headers'', first_present result)"
      rule: selected_body.cases) (simp_all add: ok_def throw_def)

lemma materialize_no_dispatch:
  "filter dispatch_call (fst (materialize rv dbg time now result)) = []"
  using set_cookies_calls [of result] set_headers_calls [of result]
    set_status_calls [of dbg time now result] write_body_no_dispatch [of rv dbg result]
  by (simp add: materialize_def andThen_filter ok_def throw_def split: option.splits)

lemma intercept_no_dispatch:
  "filter dispatch_call (fst (intercept rv params request error)) = []"
  by (simp add: intercept_def andThen_filter ok_def throw_def Let_def split: option.splits)

lemma catch_dispatch:
  "filter dispatch_call (fst (catch rv params request earlier error)) = filter dispatch_call earlier"
  using intercept_no_dispatch [of rv params request error]
  by (cases "intercept rv params request error") (auto simp: catch_def split: option.splits)

lemma dispatch_calls:
  "filter dispatch_call (fst (dispatch params route results)) = fst (dispatch params route results)"
  by (simp add: dispatch_def split: option.splits)

lemma chain_dispatch:
  "filter dispatch_call (fst (chain rv params route time now request all)) =
     (case all of Fulfilled results \<Rightarrow> fst (dispatch params route results) | _ \<Rightarrow> [])"
proof (cases all)
  case (Fulfilled results)
  obtain ds c where d: "dispatch params route results = (ds, c)"
    by (cases "dispatch params route results")
  have ds: "filter dispatch_call ds = ds"
    using dispatch_calls [of params route results] d by simp
  show ?thesis
    using ds materialize_no_dispatch [of rv "debug params" time now]
    by (simp add: chain_def Fulfilled d catch_dispatch split: settlement.splits prod.splits option.splits)
       (metis fst_conv)
next
  case (Rejected e)
  then show ?thesis by (simp add: chain_def catch_dispatch)
next
  case Pending
  then show ?thesis by (simp add: chain_def)
qed

lemma listener_fulfilled:
  assumes "resolves route = Some rs"
    and "map (\<lambda>resolve. resolve request) rs = map Returns as"
    and "map fulfilment as = map Some vs"
  shows "listener rv params route time now request =
           chain rv params route time now request (Fulfilled (request # vs))"
  using assms forEach_push_returns [OF assms(2)] Promise_all_fulfilled [OF assms(3)]
  by (simp add: listener_def)


lemma guarded_resolves:
  assumes "resolves route = None \<or> resolves route = Some []"
  shows "listener Second params route time now request =
           chain Second params route time now request (Fulfilled [request])"
    and "filter dispatch_call (fst (listener Second params route time now request)) =
           fst (dispatch params route [request])"
  using assms by (auto simp: listener_def Promise_all_def chain_dispatch)

text \<open>
  \<^bold>\<open>C2.\<close> When every resolver of the route hands back a plain value or a promise that is
  fulfilled, at whatever instants, the dispatch target is invoked once, with the request
  followed by the resolvers' values in the order the resolvers are declared: the named
  action when the action name is truthy and the controller holds a function under it,
  the callback when no action name is given. The target is applied to exactly that
  argument list, and the rest of the run is what follows from the completion of that
  application: stalled, intercepted, or materialized.
\<close>

theorem arguments_in_declaration_order:
  assumes "resolves route = Some rs"
    and "map (\<lambda>resolve. resolve request) rs = map Returns as"
    and "map fulfilment as = map Some vs"
  shows "(action route = Some name \<and> name \<noteq> [] \<and> controller params = Some members \<and>
          members name = Some f \<longrightarrow>
            filter dispatch_call (fst (listener rv params route time now request)) =
              [Action name (request # vs)]
            \<and> dispatch params route (request # vs) =
                ([Action name (request # vs)], f (request # vs))
            \<and> listener rv params route time now request =
                (case adopt (f (request # vs)) of
                   Pending \<Rightarrow> ([Action name (request # vs)], Stalled)
                 | Rejected e \<Rightarrow> catch rv params request [Action name (request # vs)] e
                 | Fulfilled result \<Rightarrow>
                     (case materialize rv (debug params) time now result of
                        (ms, None) \<Rightarrow> ([Action name (request # vs)] @ ms, Settled)
                      | (ms, Some e) \<Rightarrow>
                          catch rv params request ([Action name (request # vs)] @ ms) e)))
       \<and> ((action route = None \<or> action route = Some []) \<and> callback route = Some g \<longrightarrow>
            filter dispatch_call (fst (listener rv params route time now request)) =
              [Callback (request # vs)]
            \<and> dispatch params route (request # vs) =
                ([Callback (request # vs)], g (request # vs))
            \<and> listener rv params route time now request =
                (case adopt (g (request # vs)) of
                   Pending \<Rightarrow> ([Callback (request # vs)], Stalled)
                 | Rejected e \<Rightarrow> catch rv params request [Callback (request # vs)] e
                 | Fulfilled result \<Rightarrow>
                     (case materialize rv (debug params) time now result of
                        (ms, None) \<Rightarrow> ([Callback (request # vs)] @ ms, Settled)
                      | (ms, Some e) \<Rightarrow>
                          catch rv params request ([Callback (request # vs)] @ ms) e)))"
proof (intro conjI impI)
  assume a: "action route = Some name \<and> name \<noteq> [] \<and> controller params = Some members \<and>
          members name = Some f"
  then have d: "dispatch params route (request # vs) =
      ([Action name (request # vs)], f (request # vs))"
    by (simp add: dispatch_def)
  show "dispatch params route (request # vs) =
      ([Action name (request # vs)], f (request # vs))"
    by (rule d)
  show "filter dispatch_call (fst (listener rv params route time now request)) =
          [Action name (request # vs)]"
    unfolding listener_fulfilled [OF assms] chain_dispatch by (simp add: d)
  show "listener rv params route time now request =
          (case adopt (f (request # vs)) of
             Pending \<Rightarrow> ([Action name (request # vs)], Stalled)
           | Rejected e \<Rightarrow> catch rv params request [Action name (request # vs)] e
           | Fulfilled result \<Rightarrow>
               (case materialize rv (debug params) time now result of
                  (ms, None) \<Rightarrow> ([Action name (request # vs)] @ ms, Settled)
                | (ms, Some e) \<Rightarrow>
                    catch rv params request ([Action name (request # vs)] @ ms) e))"
    unfolding listener_fulfilled [OF assms] by (simp add: chain_def d)
next
  assume a: "(action route = None \<or> action route = Some []) \<and> callback route = Some g"
  then have d: "dispatch params route (request # vs) =
      ([Callback (request # vs)], g (request # vs))"
    by (auto simp: dispatch_def)
  show "dispatch params route (request # vs) =
      ([Callback (request # vs)], g (request # vs))"
    by (rule d)
  show "filter dispatch_call (fst (listener rv params route time now request)) =
          [Callback (request # vs)]"
    unfolding listener_fulfilled [OF assms] chain_dispatch by (simp add: d)
  show "listener rv params route time now request =
          (case adopt (g (request # vs)) of
             Pending \<Rightarrow> ([Callback (request # vs)], Stalled)
           | Rejected e \<Rightarrow> catch rv params request [Callback (request # vs)] e
           | Fulfilled result \<Rightarrow>
               (case materialize rv (debug params) time now result of
                  (ms, None) \<Rightarrow> ([Callback (request # vs)] @ ms, Settled)
                | (ms, Some e) \<Rightarrow>
                    catch rv params request ([Callback (request # vs)] @ ms) e))"
    unfolding listener_fulfilled [OF assms] by (simp add: chain_def d)
qed

theorem arguments_in_declaration_order_witness:
  "map (\<lambda>resolve. resolve (JObj [(''url'', JStr ''/'')]))
       [resolving 9 (JStr ''first''), resolving 2 (JStr ''second''), returning (JNum 3)]
     = map Returns [Fulfils 9 (JStr ''first''), Fulfils 2 (JStr ''second''), Value (JNum 3)]
   \<and> map fulfilment [Fulfils 9 (JStr ''first''), Fulfils 2 (JStr ''second''), Value (JNum 3)]
     = map Some [JStr ''first'', JStr ''second'', JNum 3]
   \<and> filter dispatch_call (fst (listener Second
        \<lparr>debug = False, controller = None, onError = None, routes = []\<rparr>
        \<lparr>http_method = get, path = ''/'',
         resolves = Some [resolving 9 (JStr ''first''), resolving 2 (JStr ''second''), returning (JNum 3)],
         action = None, callback = Some echoing\<rparr>
        0 0 (JObj [(''url'', JStr ''/'')])))
     = [Callback [JObj [(''url'', JStr ''/'')], JStr ''first'', JStr ''second'', JNum 3]]
   \<and> listener Second
        \<lparr>debug = False, controller = None, onError = None, routes = []\<rparr>
        \<lparr>http_method = get, path = ''/'',
         resolves = Some [resolving 9 (JStr ''first''), resolving 2 (JStr ''second''), returning (JNum 3)],
         action = None, callback = Some echoing\<rparr>
        0 0 (JObj [(''url'', JStr ''/'')])
     = ([Callback [JObj [(''url'', JStr ''/'')], JStr ''first'', JStr ''second'', JNum 3],
         Status (JNum 200),
         Json (JObj [(''0'', JObj [(''url'', JStr ''/'')]), (''1'', JStr ''first''),
                     (''2'', JStr ''second''), (''3'', JNum 3)])],
        Settled)"
proof -
  let ?rs = "[resolving 9 (JStr ''first''), resolving 2 (JStr ''second''), returning (JNum 3)]"
  let ?route = "\<lparr>http_method = get, path = ''/'', resolves = Some ?rs,
         action = None, callback = Some echoing\<rparr>"
  have r: "resolves ?route = Some ?rs"
    by simp
  have a: "map (\<lambda>resolve. resolve (JObj [(''url'', JStr ''/'')])) ?rs
     = map Returns [Fulfils 9 (JStr ''first''), Fulfils 2 (JStr ''second''), Value (JNum 3)]"
    by (simp add: resolving_def returning_def)
  have v: "map fulfilment [Fulfils 9 (JStr ''first''), Fulfils 2 (JStr ''second''), Value (JNum 3)]
     = map Some [JStr ''first'', JStr ''second'', JNum 3]"
    by simp
  show ?thesis
    using a v arguments_in_declaration_order [OF r a v,
        where g = echoing and rv = Second and time = 0 and now = 0
          and params = "\<lparr>debug = False, controller = None, onError = None, routes = []\<rparr>"]
    by (simp add: echoing_def materialize_def set_cookies_def set_headers_def set_status_def
        write_body_def ok_def)
qed

text \<open>
  \<^bold>\<open>C8\<close> fails on the first revision: it calls \<^verbatim>\<open>route.resolves.forEach\<close> unguarded, so
  a route without \<open>resolves\<close> raises in the listener before the chain is built, and
  nothing is dispatched or written. The second revision, on the same route, dispatches
  with the request alone (lemma \<open>guarded_resolves\<close> for every such route).
\<close>

theorem absent_resolves_first_revision:
  "listener First
     \<lparr>debug = False, controller = None, onError = None, routes = []\<rparr>
     \<lparr>http_method = get, path = ''/'', resolves = None, action = None,
      callback = Some (answering (JObj [(''text'', JStr ''ok'')]))\<rparr>
     0 0 (JObj [(''url'', JStr ''/'')])
   = ([], Uncaught (TypeError ''route.resolves.forEach''))
   \<and> listener Second
     \<lparr>debug = False, controller = None, onError = None, routes = []\<rparr>
     \<lparr>http_method = get, path = ''/'', resolves = None, action = None,
      callback = Some (answering (JObj [(''text'', JStr ''ok'')]))\<rparr>
     0 0 (JObj [(''url'', JStr ''/'')])
   = ([Callback [JObj [(''url'', JStr ''/'')]], Status (JNum 200), End (JStr ''ok'')], Settled)"
  by (simp add: listener_def Promise_all_def chain_def dispatch_def answering_def materialize_def
      set_cookies_def set_headers_def set_status_def write_body_def ok_def)



subsection \<open>The examples of the specification, run on the model\<close>

lemma example_redirect_only:
  "listener Second
     \<lparr>debug = False, controller = None, onError = None, routes = []\<rparr>
     \<lparr>http_method = get, path = ''/'', resolves = Some [], action = None,
      callback = Some (answering (JObj [(''redirect'', JStr ''/x'')]))\<rparr>
     0 0 (JObj [(''url'', JStr ''/'')])
   = ([Callback [JObj [(''url'', JStr ''/'')]], Redirect (JStr ''/x'')], Settled)"
  by (simp add: listener_def Promise_all_def chain_def dispatch_def answering_def materialize_def
      set_cookies_def set_headers_def ok_def)

lemma example_debug_payload:
  "write_body Second True (JObj [(''json'', JObj [(''a'', JNum 1)]), (''debug'', JStr ''t'')])
     = ok [Json (JObj [(''a'', JNum 1), (''debug'', JStr ''t'')])]"
  "write_body Second False (JObj [(''json'', JObj [(''a'', JNum 1)]), (''debug'', JStr ''t'')])
     = ok [Json (JObj [(''a'', JNum 1)])]"
  by (simp_all add: write_body_def)

lemma example_unmapped_error:
  "listener Second
     \<lparr>debug = False, controller = None, onError = None, routes = []\<rparr>
     \<lparr>http_method = get, path = ''/'',
      resolves = Some [rejecting 0 (JObj [(''message'', JStr ''no such user'')])],
      action = None, callback = Some (answering (JObj []))\<rparr>
     0 0 (JObj [(''url'', JStr ''/'')])
   = ([LogError ''[path-router-express]'' (JObj [(''message'', JStr ''no such user'')]),
       Status (JNum 500),
       Json (JObj [(''error'', JObj [(''name'', JStr ''internalError''),
                                     (''message'', JStr ''no such user'')])])],
      Settled)"
  by (simp add: listener_def rejecting_def Promise_all_def chain_def catch_def intercept_def
      internalError_def ok_def)

lemma example_duration_header:
  "set_status True 100 157 (JObj [(''count'', JNum 12)])
     = [Status (JNum 200), Header ''X-Total-Count'' (JStr ''12''),
        Header ''X-Request-Duration'' (JStr ''57'')]"
  by (simp add: set_status_def toString_def toString_nat.simps digit_def)

end
